theory Spec2Isabelle
  imports Main "HOL-Library.Word"
begin

section \<open>The agent registry server (server/main.go)\<close>

text \<open>
  The server is a REST facade over a Consul agent. This theory embeds its access-control
  middleware, the translation between an \<open>Agent\<close> and a Consul service, and the five
  handlers. The Consul client, the JWT library, the JSON binder and the time package are
  libraries outside the repository: their results enter the model as values (the state of
  the registry, the outcome of parsing a token, the bound request body, the time
  operations).
\<close>

subsection \<open>Go's strings package, as far as the server uses it\<close>

definition HasPrefix :: "string \<Rightarrow> string \<Rightarrow> bool" where
  "HasPrefix s p = (take (length p) s = p)"

definition TrimPrefix :: "string \<Rightarrow> string \<Rightarrow> string" where
  "TrimPrefix s p = (if HasPrefix s p then drop (length p) s else s)"

text \<open>\<open>strings.Join(arr, ",")\<close>: the elements with one comma between neighbours.\<close>

fun Join :: "string list \<Rightarrow> string" where
  "Join [] = []"
| "Join [x] = x"
| "Join (x # y # ys) = x @ '','' @ Join (y # ys)"

text \<open>
  \<open>strings.Split(str, ",")\<close>: the pieces between the commas; a string with \<open>n\<close> commas
  has \<open>n + 1\<close> pieces, and the empty string has the single piece \<open>""\<close>.
\<close>

fun Split :: "string \<Rightarrow> string list" where
  "Split [] = [[]]"
| "Split (c # cs) =
     (if c = CHR '','' then [] # Split cs
      else (c # hd (Split cs)) # tl (Split cs))"

subsection \<open>The data: sharewoodapi.Agent and the Consul records\<close>

text \<open>
  \<open>time.Time\<close> is the type variable \<open>'t\<close>; the operations of the time package that the
  server calls are the fields of \<open>time_lib\<close>: \<open>t.IsZero()\<close>, \<open>t.Format(time.RFC3339)\<close>,
  \<open>time.Parse(time.RFC3339, s)\<close> (\<open>None\<close> when it returns an error) and the zero value
  \<open>time.Time{}\<close>.
\<close>

record 't time_lib =
  IsZero :: "'t \<Rightarrow> bool"
  Format :: "'t \<Rightarrow> string"
  Parse :: "string \<Rightarrow> 't option"
  zeroTime :: 't

record 't Agent =
  Name :: string
  Description :: string
  Release :: string
  BaseURL :: string
  OpenAPI :: string
  HowToUse :: string
  Expiration :: 't
  TTL :: "64 word"
  Tags :: "string list"

text \<open>
  \<open>api.AgentServiceRegistration\<close> as the server fills it: name, tags, metadata and the
  optional TTL check. The check's TTL is kept as the \<open>time.Duration\<close> (int64 nanoseconds)
  that the server renders with \<open>String()\<close>.
\<close>

record registration =
  reg_Name :: string
  reg_Tags :: "string list"
  reg_Meta :: "string \<rightharpoonup> string"
  reg_Check :: "64 word option"

text \<open>\<open>api.AgentService\<close> as the server reads it: ID, service name, tags, metadata.\<close>

record service =
  svc_ID :: string
  Service :: string
  svc_Tags :: "string list"
  svc_Meta :: "string \<rightharpoonup> string"

text \<open>Indexing a Go map of strings: a missing key reads as the empty string.\<close>

definition meta_get :: "(string \<rightharpoonup> string) \<Rightarrow> string \<Rightarrow> string" where
  "meta_get m k = (case m k of None \<Rightarrow> [] | Some v \<Rightarrow> v)"

subsection \<open>Encoding and decoding arrays\<close>

definition encodeArrayToString :: "string list \<Rightarrow> string" where
  "encodeArrayToString arr = (if length arr = 0 then [] else Join arr)"

definition decodeStringToArray :: "string \<Rightarrow> string list" where
  "decodeStringToArray str = (if str = [] then [] else Split str)"

subsection \<open>registerAgent: from an Agent to a registration\<close>

text \<open>The metadata map of \<open>registerAgent\<close>: three fixed keys, then one key for each
  optional field that is present.\<close>

definition metadata_of :: "'t time_lib \<Rightarrow> 't Agent \<Rightarrow> (string \<rightharpoonup> string)" where
  "metadata_of tm agent =
     (let m0 = [''Description'' \<mapsto> Description agent,
                ''howtouse'' \<mapsto> HowToUse agent,
                ''baseurl'' \<mapsto> BaseURL agent];
          m1 = (if \<not> IsZero tm (Expiration agent)
                then m0(''expiration'' \<mapsto> Format tm (Expiration agent)) else m0);
          m2 = (if Release agent \<noteq> [] then m1(''release'' \<mapsto> Release agent) else m1);
          m3 = (if OpenAPI agent \<noteq> [] then m2(''openapi'' \<mapsto> OpenAPI agent) else m2);
          m4 = (if length (Tags agent) > 0
                then m3(''tags'' \<mapsto> encodeArrayToString (Tags agent)) else m3)
      in m4)"

text \<open>\<open>time.Duration(agent.TTL) * time.Second\<close> is an int64 product and wraps.\<close>

definition ttlDuration :: "64 word \<Rightarrow> 64 word" where
  "ttlDuration ttl = ttl * 1000000000"

definition registration_of :: "'t time_lib \<Rightarrow> 't Agent \<Rightarrow> registration" where
  "registration_of tm agent =
     \<lparr>reg_Name = Name agent,
      reg_Tags = ''ai-agent'' # Tags agent,
      reg_Meta = metadata_of tm agent,
      reg_Check = (if 0 <s TTL agent then Some (ttlDuration (TTL agent)) else None)\<rparr>"

subsection \<open>listAgents and getAgent: from a service to an Agent\<close>

text \<open>The loop that looks for the tag \<open>"ai-agent"\<close> and breaks at the first hit.\<close>

fun isAIAgent :: "string list \<Rightarrow> bool" where
  "isAIAgent [] = False"
| "isAIAgent (tag # tags) = (if tag = ''ai-agent'' then True else isAIAgent tags)"

text \<open>The inner loop: is the tag already in the list built so far?\<close>

fun found :: "string \<Rightarrow> string list \<Rightarrow> bool" where
  "found tag [] = False"
| "found tag (existingTag # rest) = (if existingTag = tag then True else found tag rest)"

text \<open>The outer loop over \<open>service.Tags\<close>, appending to \<open>agent.Tags\<close>.\<close>

fun addServiceTags :: "string list \<Rightarrow> string list \<Rightarrow> string list" where
  "addServiceTags acc [] = acc"
| "addServiceTags acc (tag # tags) =
     (if tag \<noteq> ''ai-agent''
      then (if \<not> found tag acc then addServiceTags (acc @ [tag]) tags
            else addServiceTags acc tags)
      else addServiceTags acc tags)"

text \<open>"First add tags from meta if present": \<open>agent.Tags\<close> before the outer loop.\<close>

definition metaTags :: "service \<Rightarrow> string list" where
  "metaTags s =
     (case svc_Meta s ''tags'' of
        Some val \<Rightarrow> (if val \<noteq> [] then [] @ decodeStringToArray val else [])
      | None \<Rightarrow> [])"

definition tags_of_service :: "service \<Rightarrow> string list" where
  "tags_of_service s = addServiceTags (metaTags s) (svc_Tags s)"

definition expiration_of_service :: "'t time_lib \<Rightarrow> service \<Rightarrow> 't" where
  "expiration_of_service tm s =
     (case svc_Meta s ''expiration'' of
        Some val \<Rightarrow>
          (if val \<noteq> [] then (case Parse tm val of Some t \<Rightarrow> t | None \<Rightarrow> zeroTime tm)
           else zeroTime tm)
      | None \<Rightarrow> zeroTime tm)"

definition optional_meta :: "service \<Rightarrow> string \<Rightarrow> string" where
  "optional_meta s k =
     (case svc_Meta s k of Some val \<Rightarrow> (if val \<noteq> [] then val else []) | None \<Rightarrow> [])"

text \<open>
  The body of the branch \<open>if isAIAgent\<close>, the same statements in \<open>listAgents\<close> and in
  \<open>getAgent\<close>: the Agent built from one service. \<open>TTL\<close> is not assigned and keeps the
  zero value.
\<close>

definition buildAgent :: "'t time_lib \<Rightarrow> service \<Rightarrow> 't Agent" where
  "buildAgent tm s =
     \<lparr>Name = Service s,
      Description = meta_get (svc_Meta s) ''Description'',
      Release = optional_meta s ''release'',
      BaseURL = meta_get (svc_Meta s) ''baseurl'',
      OpenAPI = optional_meta s ''openapi'',
      HowToUse = meta_get (svc_Meta s) ''howtouse'',
      Expiration = expiration_of_service tm s,
      TTL = 0,
      Tags = tags_of_service s\<rparr>"

subsection \<open>Responses\<close>

text \<open>
  A response is the HTTP status with the JSON body: \<open>sharewoodapi.ErrorResponse\<close> (error,
  details), \<open>AgentRegistrationResponse\<close>, \<open>AgentResponse\<close>, the bare array of agents that
  \<open>listAgents\<close> writes, and the \<open>gin.H{"message": ...}\<close> acknowledgements.
\<close>

datatype 't body =
    ErrorResponse string string
  | AgentRegistrationResponse "'t Agent" string
  | AgentResponse "'t Agent"
  | AgentsArray "'t Agent list"
  | MessageBody string

type_synonym 't response = "nat \<times> 't body"

subsection \<open>The Consul agent behind consulClient\<close>

text \<open>
  The registry is the environment of the server. Its state holds the registered services
  in the order in which ranging over the map returned by \<open>Agent().Services()\<close> visits them
  (any order is possible, so any list is a state), and, for each call of the client
  that the server makes, the error it returns if it fails. The field \<open>calls\<close> records the
  calls made, so that "no call to the registry" can be stated.

  \<open>ServiceRegister\<close> is given no ID, and Consul then uses the name as ID and replaces the
  service that has this ID; \<open>ServiceDeregister\<close> removes the service with the given ID,
  and fails when no service has it.
\<close>

datatype call =
    CallServices
  | CallServiceRegister registration
  | CallServiceDeregister string
  | CallUpdateTTL string string string

record consul =
  services :: "service list"
  ServicesErr :: "string option"
  RegisterErr :: "string option"
  DeregisterErr :: "string option"
  UpdateTTLErr :: "string option"
  calls :: "call list"

definition service_of :: "registration \<Rightarrow> service" where
  "service_of r =
     \<lparr>svc_ID = reg_Name r, Service = reg_Name r, svc_Tags = reg_Tags r, svc_Meta = reg_Meta r\<rparr>"

definition Services :: "consul \<Rightarrow> (string + service list) \<times> consul" where
  "Services st =
     ((case ServicesErr st of Some e \<Rightarrow> Inl e | None \<Rightarrow> Inr (services st)),
      st\<lparr>calls := calls st @ [CallServices]\<rparr>)"

definition ServiceRegister :: "registration \<Rightarrow> consul \<Rightarrow> string option \<times> consul" where
  "ServiceRegister r st =
     (case RegisterErr st of
        Some e \<Rightarrow> (Some e, st\<lparr>calls := calls st @ [CallServiceRegister r]\<rparr>)
      | None \<Rightarrow>
          (None, st\<lparr>services := filter (\<lambda>s. svc_ID s \<noteq> reg_Name r) (services st) @ [service_of r],
                    calls := calls st @ [CallServiceRegister r]\<rparr>))"

definition ServiceDeregister :: "string \<Rightarrow> consul \<Rightarrow> string option \<times> consul" where
  "ServiceDeregister name st =
     (case DeregisterErr st of
        Some e \<Rightarrow> (Some e, st\<lparr>calls := calls st @ [CallServiceDeregister name]\<rparr>)
      | None \<Rightarrow>
          if \<forall>s\<in>set (services st). svc_ID s \<noteq> name
          then (Some (''Unknown service ID '' @ name),
                st\<lparr>calls := calls st @ [CallServiceDeregister name]\<rparr>)
          else
            (None, st\<lparr>services := filter (\<lambda>s. svc_ID s \<noteq> name) (services st),
                      calls := calls st @ [CallServiceDeregister name]\<rparr>))"

definition UpdateTTL :: "string \<Rightarrow> string \<Rightarrow> string \<Rightarrow> consul \<Rightarrow> string option \<times> consul" where
  "UpdateTTL checkID output status st =
     (UpdateTTLErr st, st\<lparr>calls := calls st @ [CallUpdateTTL checkID output status]\<rparr>)"

subsection \<open>agentExists\<close>

fun nameRegistered :: "string \<Rightarrow> service list \<Rightarrow> bool" where
  "nameRegistered name [] = False"
| "nameRegistered name (s # ss) = (if Service s = name then True else nameRegistered name ss)"

definition agentExists :: "string \<Rightarrow> consul \<Rightarrow> (string + bool) \<times> consul" where
  "agentExists name st =
     (case Services st of
        (Inl err, st1) \<Rightarrow> (Inl (''failed to check if agent exists: '' @ err), st1)
      | (Inr svcs, st1) \<Rightarrow> (Inr (nameRegistered name svcs), st1))"

subsection \<open>The handlers\<close>

text \<open>
  \<open>registerAgent\<close> receives the outcome of \<open>c.ShouldBindJSON(&agent)\<close>: the error text, or
  the bound Agent, in which a field absent from the JSON has its zero value.
\<close>

definition registerAgent ::
  "'t time_lib \<Rightarrow> string + 't Agent \<Rightarrow> consul \<Rightarrow> 't response \<times> consul" where
  "registerAgent tm bound st =
     (case bound of
        Inl err \<Rightarrow> ((400, ErrorResponse ''Invalid request body'' err), st)
      | Inr agent \<Rightarrow>
          if Name agent = [] \<or> Description agent = [] \<or> BaseURL agent = [] \<or> HowToUse agent = []
          then ((400, ErrorResponse ''Missing required fields''
                        ''name, description, baseurl, and howtouse are required''), st)
          else
            (case agentExists (Name agent) st of
               (Inl err, st1) \<Rightarrow>
                 ((500, ErrorResponse ''Failed to check if agent already exists'' err), st1)
             | (Inr exists, st1) \<Rightarrow>
                 if exists
                 then ((409, ErrorResponse ''Agent already exists''
                               (''An agent with the name '' @ [CHR 0x27] @ Name agent @ [CHR 0x27]
                                  @ '' is already registered'')), st1)
                 else
                   (case ServiceRegister (registration_of tm agent) st1 of
                      (Some err, st2) \<Rightarrow>
                        ((500, ErrorResponse ''Failed to register agent'' err), st2)
                    | (None, st2) \<Rightarrow>
                        ((201, AgentRegistrationResponse agent ''Agent registered successfully''),
                         st2))))"

text \<open>The loop of \<open>listAgents\<close>, appending to \<open>agents\<close>.\<close>

fun collectAgents :: "'t time_lib \<Rightarrow> 't Agent list \<Rightarrow> service list \<Rightarrow> 't Agent list" where
  "collectAgents tm agents [] = agents"
| "collectAgents tm agents (s # ss) =
     (if isAIAgent (svc_Tags s) then collectAgents tm (agents @ [buildAgent tm s]) ss
      else collectAgents tm agents ss)"

definition listAgents :: "'t time_lib \<Rightarrow> consul \<Rightarrow> 't response \<times> consul" where
  "listAgents tm st =
     (case Services st of
        (Inl err, st1) \<Rightarrow> ((500, ErrorResponse ''Failed to list agents'' err), st1)
      | (Inr svcs, st1) \<Rightarrow> ((200, AgentsArray (collectAgents tm [] svcs)), st1))"

text \<open>The loop of \<open>getAgent\<close>: the first service with the name and the tag, if any.\<close>

fun findAgent :: "'t time_lib \<Rightarrow> string \<Rightarrow> service list \<Rightarrow> 't Agent option" where
  "findAgent tm name [] = None"
| "findAgent tm name (s # ss) =
     (if Service s = name
      then (if isAIAgent (svc_Tags s) then Some (buildAgent tm s) else findAgent tm name ss)
      else findAgent tm name ss)"

definition getAgent :: "'t time_lib \<Rightarrow> string \<Rightarrow> consul \<Rightarrow> 't response \<times> consul" where
  "getAgent tm name st =
     (case agentExists name st of
        (Inl err, st1) \<Rightarrow> ((500, ErrorResponse ''Failed to check agent existence'' err), st1)
      | (Inr exists, st1) \<Rightarrow>
          if \<not> exists then ((404, ErrorResponse ''Agent not found'' []), st1)
          else
            (case Services st1 of
               (Inl err, st2) \<Rightarrow> ((500, ErrorResponse ''Failed to get agent'' err), st2)
             | (Inr svcs, st2) \<Rightarrow>
                 (case findAgent tm name svcs of
                    Some agent \<Rightarrow> ((200, AgentResponse agent), st2)
                  | None \<Rightarrow> ((404, ErrorResponse ''Agent not found'' []), st2))))"

definition unregisterAgent :: "string \<Rightarrow> consul \<Rightarrow> 't response \<times> consul" where
  "unregisterAgent name st =
     (case agentExists name st of
        (Inl err, st1) \<Rightarrow> ((500, ErrorResponse ''Failed to check agent existence'' err), st1)
      | (Inr exists, st1) \<Rightarrow>
          if \<not> exists
          then ((404, ErrorResponse ''Agent not found''
                        (''No agent with the name '' @ [CHR 0x27] @ name @ [CHR 0x27]
                           @ '' was found'')), st1)
          else
            (case ServiceDeregister name st1 of
               (Some err, st2) \<Rightarrow> ((500, ErrorResponse ''Failed to unregister agent'' err), st2)
             | (None, st2) \<Rightarrow> ((200, MessageBody ''Agent unregistered successfully''), st2)))"

definition updateAgentHealth :: "string \<Rightarrow> string \<Rightarrow> consul \<Rightarrow> 't response \<times> consul" where
  "updateAgentHealth name status st =
     (if status \<noteq> ''passing'' \<and> status \<noteq> ''warning'' \<and> status \<noteq> ''critical''
      then ((400, ErrorResponse
                    (''Invalid status. Must be '' @ [CHR 0x27] @ ''passing'' @ [CHR 0x27] @ '', ''
                       @ [CHR 0x27] @ ''warning'' @ [CHR 0x27] @ '', or ''
                       @ [CHR 0x27] @ ''critical'' @ [CHR 0x27]) []), st)
      else
        (case agentExists name st of
           (Inl err, st1) \<Rightarrow> ((500, ErrorResponse ''Failed to check agent existence'' err), st1)
         | (Inr exists, st1) \<Rightarrow>
             if \<not> exists then ((404, ErrorResponse ''Agent not found'' []), st1)
             else
               (case UpdateTTL (''service:'' @ name) [] status st1 of
                  (Some err, st2) \<Rightarrow>
                    ((500, ErrorResponse ''Failed to update agent health'' err), st2)
                | (None, st2) \<Rightarrow>
                    ((200, MessageBody ''Agent health updated successfully''), st2))))"

subsection \<open>Authentication and authorization\<close>

text \<open>
  \<open>os.Getenv\<close> and \<open>c.GetHeader\<close> return the empty string for a variable or header that
  is not set.
\<close>

definition Getenv :: "(string \<rightharpoonup> string) \<Rightarrow> string \<Rightarrow> string" where
  "Getenv env k = (case env k of None \<Rightarrow> [] | Some v \<Rightarrow> v)"

definition GetHeader :: "(string \<rightharpoonup> string) \<Rightarrow> string \<Rightarrow> string" where
  "GetHeader hdrs k = (case hdrs k of None \<Rightarrow> [] | Some v \<Rightarrow> v)"

definition validateAPIKey :: "string \<Rightarrow> string \<times> bool" where
  "validateAPIKey apiKey =
     (if apiKey = ''test-api-key'' then (''agent-publisher'', True) else ([], False))"

record JWTClaims =
  UserID :: string
  Role :: string

text \<open>
  \<open>jwt.ParseWithClaims(tokenString, &JWTClaims{}, keyFunc)\<close> belongs to the JWT library: it
  is the parameter \<open>jwt\<close>, a function of the token string and of the secret that the key
  function returns, with \<open>None\<close> for a non-nil error. The token it returns carries the
  claims object it was given, so the type assertion in \<open>validateJWT\<close> holds.
\<close>

record jwt_token =
  Claims :: JWTClaims
  Valid :: bool

definition validateJWT ::
  "(string \<Rightarrow> string \<Rightarrow> jwt_token option) \<Rightarrow> (string \<rightharpoonup> string) \<Rightarrow> string \<Rightarrow> JWTClaims option" where
  "validateJWT jwt env tokenString =
     (let secret = Getenv env ''JWT_SECRET''
      in case jwt tokenString secret of
           None \<Rightarrow> None
         | Some token \<Rightarrow> (if Valid token then Some (Claims token) else None))"

text \<open>
  A middleware ends in \<open>c.Next()\<close>, with the keys it has set in the context, or in
  \<open>c.Abort()\<close> after writing a response.
\<close>

datatype 't gate = Next "string \<rightharpoonup> string" | Abort "'t response"

definition authMiddleware ::
  "(string \<Rightarrow> string \<Rightarrow> jwt_token option) \<Rightarrow> (string \<rightharpoonup> string) \<Rightarrow> (string \<rightharpoonup> string)
     \<Rightarrow> (string \<rightharpoonup> string) \<Rightarrow> 't gate" where
  "authMiddleware jwt env hdrs keys =
     (if Getenv env ''DEV_MODE'' = ''true'' then Next (keys(''role'' \<mapsto> ''admin''))
      else
        (let apiKey = GetHeader hdrs ''X-API-Key'';
             byKey = (if apiKey \<noteq> []
                      then (case validateAPIKey apiKey of
                              (role, valid) \<Rightarrow> if valid then Some role else None)
                      else None)
         in case byKey of
              Some role \<Rightarrow> Next (keys(''role'' \<mapsto> role))
            | None \<Rightarrow>
                (let authHeader = GetHeader hdrs ''Authorization'';
                     byToken = (if authHeader \<noteq> [] \<and> HasPrefix authHeader ''Bearer ''
                                then validateJWT jwt env (TrimPrefix authHeader ''Bearer '')
                                else None)
                 in case byToken of
                      Some claims \<Rightarrow>
                        Next (keys(''user_id'' \<mapsto> UserID claims, ''role'' \<mapsto> Role claims))
                    | None \<Rightarrow>
                        Abort (401, ErrorResponse ''Authentication required''
                                      ''Provide a valid API key or Bearer token''))))"

text \<open>The loop of \<open>authorize\<close> over \<open>allowedRoles\<close>.\<close>

fun roleAllowed :: "string \<Rightarrow> string list \<Rightarrow> bool" where
  "roleAllowed roleStr [] = False"
| "roleAllowed roleStr (allowedRole # rest) =
     (if roleStr = allowedRole \<or> roleStr = ''admin'' then True else roleAllowed roleStr rest)"

definition authorize :: "string list \<Rightarrow> (string \<rightharpoonup> string) \<Rightarrow> 't gate" where
  "authorize allowedRoles keys =
     (case keys ''role'' of
        None \<Rightarrow> Abort (403, ErrorResponse ''Role information missing'' [])
      | Some roleStr \<Rightarrow>
          if roleAllowed roleStr allowedRoles then Next keys
          else Abort (403, ErrorResponse ''Insufficient permissions'' []))"

subsection \<open>The routes of main\<close>

text \<open>
  The five routes of the group \<open>/api/v1/agents\<close>, each with the arguments its handler
  reads from the request: the path parameter \<open>name\<close>, the query parameter \<open>status\<close>, the
  bound body.
\<close>

datatype 't operation =
    ListAgents
  | GetAgent string
  | RegisterAgent "string + 't Agent"
  | UnregisterAgent string
  | UpdateAgentHealth string string

text \<open>The \<open>authorize(...)\<close> middleware that main puts before the handler, if any.\<close>

fun route_authorize :: "'t operation \<Rightarrow> string list option" where
  "route_authorize ListAgents = None"
| "route_authorize (GetAgent name) = None"
| "route_authorize (RegisterAgent bound) = Some [''admin'', ''agent-publisher'']"
| "route_authorize (UnregisterAgent name) = Some [''admin'', ''agent-publisher'']"
| "route_authorize (UpdateAgentHealth name status) = Some [''admin'', ''agent-publisher'']"

fun route_handler :: "'t time_lib \<Rightarrow> 't operation \<Rightarrow> consul \<Rightarrow> 't response \<times> consul" where
  "route_handler tm ListAgents st = listAgents tm st"
| "route_handler tm (GetAgent name) st = getAgent tm name st"
| "route_handler tm (RegisterAgent bound) st = registerAgent tm bound st"
| "route_handler tm (UnregisterAgent name) st = unregisterAgent name st"
| "route_handler tm (UpdateAgentHealth name status) st = updateAgentHealth name status st"

text \<open>
  One request through the chain of its route: \<open>authMiddleware\<close>, then \<open>authorize\<close> where
  the route has it, then the handler; an aborted middleware ends the chain. (The CORS
  middleware only sets response headers for the methods of these routes.)
\<close>

definition authorized_step :: "'t operation \<Rightarrow> (string \<rightharpoonup> string) \<Rightarrow> 't gate" where
  "authorized_step op keys =
     (case route_authorize op of
        None \<Rightarrow> Next keys
      | Some allowedRoles \<Rightarrow> authorize allowedRoles keys)"

definition serve ::
  "'t time_lib \<Rightarrow> (string \<Rightarrow> string \<Rightarrow> jwt_token option) \<Rightarrow> (string \<rightharpoonup> string)
     \<Rightarrow> (string \<rightharpoonup> string) \<Rightarrow> 't operation \<Rightarrow> consul \<Rightarrow> 't response \<times> consul" where
  "serve tm jwt env hdrs op st =
     (case authMiddleware jwt env hdrs Map.empty of
        Abort r \<Rightarrow> (r, st)
      | Next keys \<Rightarrow>
          (case authorized_step op keys of
             Abort r \<Rightarrow> (r, st)
           | Next keys' \<Rightarrow> route_handler tm op st))"

subsection \<open>Concrete inputs\<close>

text \<open>
  An instance of \<open>time_lib\<close> on which the model can be evaluated: a time is a number of
  seconds after the zero time, written in unary with the letter \<open>s\<close>; any other text does
  not parse.
\<close>

definition sample_time :: "nat time_lib" where
  "sample_time =
     \<lparr>IsZero = (\<lambda>t. t = 0),
      Format = (\<lambda>t. replicate t (CHR ''s'')),
      Parse = (\<lambda>str. if list_all (\<lambda>c. c = CHR ''s'') str then Some (length str) else None),
      zeroTime = 0\<rparr>"

text \<open>The agent that tool/basictest.go registers.\<close>

definition geography :: "nat Agent" where
  "geography =
     \<lparr>Name = ''Geography'',
      Description = ''Provide information on historical places'',
      Release = ''1.0.0'',
      BaseURL = ''https://api.example.com/geography'',
      OpenAPI = ''https://example.com/geography/openapi.json'',
      HowToUse = ''Send GET requests to the API with location parameters'',
      Expiration = 3,
      TTL = 300,
      Tags = [''geography'', ''locations'', ''travel'']\<rparr>"

text \<open>A registry that answers every call and holds one service that is not an agent.\<close>

definition redis :: service where
  "redis = \<lparr>svc_ID = ''redis-1'', Service = ''redis'', svc_Tags = [''db''], svc_Meta = Map.empty\<rparr>"

definition consul0 :: consul where
  "consul0 =
     \<lparr>services = [redis], ServicesErr = None, RegisterErr = None, DeregisterErr = None,
      UpdateTTLErr = None, calls = []\<rparr>"

text \<open>
  An agent whose stored expiration is not a timestamp, and a registry that holds it next
  to the foreign service.
\<close>

definition weather :: service where
  "weather =
     \<lparr>svc_ID = ''weather'', Service = ''weather'', svc_Tags = [''ai-agent'', ''forecast''],
      svc_Meta = [''Description'' \<mapsto> ''Forecasts'', ''expiration'' \<mapsto> ''next tuesday'']\<rparr>"

definition consul1 :: consul where
  "consul1 = consul0\<lparr>services := [redis, weather]\<rparr>"

text \<open>
  A JWT library that accepts one token under one secret, returns a second one marked as
  not valid, and fails on every other text.
\<close>

definition sample_jwt :: "string \<Rightarrow> string \<Rightarrow> jwt_token option" where
  "sample_jwt tokenString secret =
     (if tokenString = ''tok-1'' \<and> secret = ''s3cret''
      then Some \<lparr>Claims = \<lparr>UserID = ''u1'', Role = ''viewer''\<rparr>, Valid = True\<rparr>
      else if tokenString = ''tok-0'' \<and> secret = ''s3cret''
      then Some \<lparr>Claims = \<lparr>UserID = ''u0'', Role = ''admin''\<rparr>, Valid = False\<rparr>
      else None)"

subsection \<open>The operations that the specification calls mutating\<close>

fun mutating :: "'t operation \<Rightarrow> bool" where
  "mutating ListAgents = False"
| "mutating (GetAgent name) = False"
| "mutating (RegisterAgent bound) = True"
| "mutating (UnregisterAgent name) = True"
| "mutating (UpdateAgentHealth name status) = True"

section \<open>Properties\<close>

subsection \<open>The loops, as facts about lists\<close>

lemma isAIAgent_iff: "isAIAgent ts = (''ai-agent'' \<in> set ts)"
  by (induction ts) auto

lemma found_iff: "found t xs = (t \<in> set xs)"
  by (induction xs) auto

lemma nameRegistered_iff: "nameRegistered name ss = (\<exists>s\<in>set ss. Service s = name)"
  by (induction ss) auto

lemma roleAllowed_iff: "roleAllowed r L = (L \<noteq> [] \<and> (r = ''admin'' \<or> r \<in> set L))"
  by (induction L) auto

lemma collectAgents_eq:
  "collectAgents tm acc ss =
     acc @ map (buildAgent tm) (filter (\<lambda>s. isAIAgent (svc_Tags s)) ss)"
  by (induction ss arbitrary: acc) auto

lemma Split_not_Nil: "Split s \<noteq> []"
  by (induction s) auto

lemma Split_append_piece:
  "CHR '','' \<notin> set x \<Longrightarrow> Split (x @ s) = (x @ hd (Split s)) # tl (Split s)"
  by (induction x) (auto simp: Split_not_Nil)

lemma Split_single_piece: "CHR '','' \<notin> set x \<Longrightarrow> Split x = [x]"
  by (induction x) auto

lemma Split_Join:
  "xs \<noteq> [] \<Longrightarrow> \<forall>x\<in>set xs. CHR '','' \<notin> set x \<Longrightarrow> Split (Join xs) = xs"
  by (induction xs rule: Join.induct) (auto simp: Split_append_piece Split_single_piece)

subsection \<open>Validation before any registry call\<close>

text \<open>
  C6. A register request in which name, description, baseURL or howToUse is empty (a
  field absent from the JSON is bound to the empty string) is answered with status 400
  "Missing required fields", and the registry is left as it was: in particular no call
  is recorded, neither the existence check nor the registration.
\<close>

theorem registerAgent_missing_field_no_call:
  "Name agent = [] \<or> Description agent = [] \<or> BaseURL agent = [] \<or> HowToUse agent = [] \<Longrightarrow>
   registerAgent tm (Inr agent) st =
     ((400, ErrorResponse ''Missing required fields''
              ''name, description, baseurl, and howtouse are required''), st)
   \<and> calls (snd (registerAgent tm (Inr agent) st)) = calls st"
  by (simp add: registerAgent_def)

theorem registerAgent_missing_field_no_call_witness:
  "Description (geography\<lparr>Description := []\<rparr>) = []
   \<and> registerAgent sample_time (Inr (geography\<lparr>Description := []\<rparr>)) consul0 =
       ((400, ErrorResponse ''Missing required fields''
                ''name, description, baseurl, and howtouse are required''), consul0)
   \<and> calls (snd (registerAgent sample_time (Inr (geography\<lparr>Description := []\<rparr>)) consul0)) = []"
  using registerAgent_missing_field_no_call
          [of "geography\<lparr>Description := []\<rparr>" sample_time consul0]
  by (simp add: consul0_def)

text \<open>
  C7. For every name and every status other than passing, warning and critical, the
  health update is answered with status 400, whatever the registry holds (so whether or
  not the name exists), and the registry is left as it was: the status is checked before
  the existence check and before any call.
\<close>

theorem updateAgentHealth_invalid_status:
  "status \<notin> {''passing'', ''warning'', ''critical''} \<Longrightarrow>
   (updateAgentHealth name status st :: 't response \<times> consul) =
     ((400, ErrorResponse
              (''Invalid status. Must be '' @ [CHR 0x27] @ ''passing'' @ [CHR 0x27] @ '', ''
                 @ [CHR 0x27] @ ''warning'' @ [CHR 0x27] @ '', or ''
                 @ [CHR 0x27] @ ''critical'' @ [CHR 0x27]) []), st)
   \<and> calls (snd (updateAgentHealth name status st :: 't response \<times> consul)) = calls st"
  by (simp add: updateAgentHealth_def)

theorem updateAgentHealth_invalid_status_witness:
  "''unknown'' \<notin> {''passing'', ''warning'', ''critical''}
   \<and> fst (fst (updateAgentHealth ''redis'' ''unknown'' consul0 :: nat response \<times> consul)) = 400
   \<and> fst (fst (updateAgentHealth ''X'' ''unknown'' consul0 :: nat response \<times> consul)) = 400
   \<and> calls (snd (updateAgentHealth ''redis'' ''unknown'' consul0 :: nat response \<times> consul)) = []"
  using updateAgentHealth_invalid_status [of "''unknown''" "''redis''" consul0, where ?'t = nat]
        updateAgentHealth_invalid_status [of "''unknown''" "''X''" consul0, where ?'t = nat]
  by (simp add: consul0_def)

subsection \<open>The API-key table\<close>

text \<open>
  C10. API-key validation succeeds for the key "test-api-key" and for no other, and then
  gives the role "agent-publisher"; it never gives the role "admin". A request that
  leaves the authentication middleware with the role "admin" got it from the dev-mode
  bypass or from a valid bearer token whose role claim is "admin".
\<close>

theorem api_key_table_single_key:
  "(snd (validateAPIKey k) \<longleftrightarrow> k = ''test-api-key'')
   \<and> (snd (validateAPIKey k) \<longrightarrow> fst (validateAPIKey k) = ''agent-publisher'')
   \<and> fst (validateAPIKey k) \<noteq> ''admin''
   \<and> (authMiddleware jwt env hdrs keys = Next keys' \<and> keys' ''role'' = Some ''admin'' \<longrightarrow>
        Getenv env ''DEV_MODE'' = ''true''
        \<or> (\<exists>claims. HasPrefix (GetHeader hdrs ''Authorization'') ''Bearer ''
              \<and> validateJWT jwt env (TrimPrefix (GetHeader hdrs ''Authorization'') ''Bearer '')
                   = Some claims
              \<and> Role claims = ''admin''))"
  by (auto simp: validateAPIKey_def authMiddleware_def Let_def
           split: if_splits option.splits prod.splits)

theorem api_key_table_single_key_witness:
  "snd (validateAPIKey ''test-api-key'')
   \<and> fst (validateAPIKey ''test-api-key'') = ''agent-publisher''
   \<and> authMiddleware (\<lambda>tok secret. None) [''DEV_MODE'' \<mapsto> ''true''] Map.empty Map.empty
        = (Next [''role'' \<mapsto> ''admin''] :: nat gate)
   \<and> Getenv [''DEV_MODE'' \<mapsto> ''true''] ''DEV_MODE'' = ''true''"
  using api_key_table_single_key
          [of "''test-api-key''" "\<lambda>tok secret. None" "[''DEV_MODE'' \<mapsto> ''true'']"
              Map.empty Map.empty "[''role'' \<mapsto> ''admin'']", where ?'a = nat]
  by (simp add: authMiddleware_def Getenv_def validateAPIKey_def)

lemma authorize_nonempty:
  "keys ''role'' = Some r \<Longrightarrow> L \<noteq> [] \<Longrightarrow>
   (authorize L keys :: 't gate) =
     (if r = ''admin'' \<or> r \<in> set L then Next keys
      else Abort (403, ErrorResponse ''Insufficient permissions'' []))"
  by (simp add: authorize_def roleAllowed_iff)

subsection \<open>The two gates\<close>

text \<open>
  C4. For a request whose context holds the role \<open>r\<close>: on each mutating route (register,
  deregister, health update) the \<open>authorize\<close> middleware that main installs, with its
  allow-list \<open>L\<close>, lets the request through iff \<open>r\<close> is "admin" or a member of \<open>L\<close>, and
  otherwise aborts with 403 "Insufficient permissions"; the read routes (list, get) have
  no \<open>authorize\<close> middleware and let every role through.
\<close>

theorem authorize_role_gate:
  "keys ''role'' = Some r \<Longrightarrow>
   (mutating op \<longrightarrow>
      (\<exists>L. route_authorize op = Some L
         \<and> (authorized_step op keys :: 't gate) =
             (if r = ''admin'' \<or> r \<in> set L then Next keys
              else Abort (403, ErrorResponse ''Insufficient permissions'' []))))
   \<and> (\<not> mutating op \<longrightarrow> route_authorize op = None \<and> (authorized_step op keys :: 't gate) = Next keys)"
  by (cases op) (auto simp: authorized_step_def authorize_def)

theorem authorize_role_gate_witness:
  "[''role'' \<mapsto> ''viewer''] ''role'' = Some ''viewer''
   \<and> mutating (RegisterAgent (Inr geography))
   \<and> (authorized_step (RegisterAgent (Inr geography)) [''role'' \<mapsto> ''viewer''] :: nat gate)
        = Abort (403, ErrorResponse ''Insufficient permissions'' [])
   \<and> \<not> mutating (GetAgent ''Geography'' :: nat operation)
   \<and> (authorized_step (GetAgent ''Geography'' :: nat operation) [''role'' \<mapsto> ''viewer''] :: nat gate)
        = Next [''role'' \<mapsto> ''viewer'']"
  using authorize_role_gate [of "[''role'' \<mapsto> ''viewer'']" "''viewer''" "RegisterAgent (Inr geography)"]
        authorize_role_gate [of "[''role'' \<mapsto> ''viewer'']" "''viewer''" "GetAgent ''Geography'' :: nat operation"]
  by (simp add: authorized_step_def authorize_def)

lemma serve_read_any_role:
  "authMiddleware jwt env hdrs Map.empty = (Next keys :: 't gate) \<Longrightarrow> \<not> mutating op \<Longrightarrow>
   serve (tm :: 't time_lib) jwt env hdrs op st = route_handler tm op st"
  by (cases op) (auto simp: serve_def authorized_step_def)

text \<open>
  C5. The authentication middleware decides in this order. With the bypass variable set,
  the request continues with the role "admin". Otherwise a present and valid API key (the
  key "test-api-key") continues with the key's role. Otherwise (no key, or a key that is
  not valid, which is not rejected at this point) a header \<open>Authorization\<close> of the form
  "Bearer token" continues with the user id and role of the token's claims when the JWT
  library, given the token and the secret of the environment, returns a token without
  error and marks it valid. If neither credential validated (no such header, or the
  library returns an error, or a token that is not valid), the request is aborted with
  401 "Authentication required".
\<close>

theorem authMiddleware_order:
  "(Getenv env ''DEV_MODE'' = ''true'' \<longrightarrow>
      (authMiddleware jwt env hdrs keys :: 't gate) = Next (keys(''role'' \<mapsto> ''admin'')))
   \<and> (Getenv env ''DEV_MODE'' \<noteq> ''true'' \<and> GetHeader hdrs ''X-API-Key'' \<noteq> []
        \<and> validateAPIKey (GetHeader hdrs ''X-API-Key'') = (role, True) \<longrightarrow>
      (authMiddleware jwt env hdrs keys :: 't gate) = Next (keys(''role'' \<mapsto> role)))
   \<and> (Getenv env ''DEV_MODE'' \<noteq> ''true'' \<and> GetHeader hdrs ''X-API-Key'' = ''test-api-key'' \<longrightarrow>
      (authMiddleware jwt env hdrs keys :: 't gate)
        = Next (keys(''role'' \<mapsto> ''agent-publisher'')))
   \<and> (Getenv env ''DEV_MODE'' \<noteq> ''true''
        \<and> GetHeader hdrs ''X-API-Key'' \<noteq> ''test-api-key''
        \<and> HasPrefix (GetHeader hdrs ''Authorization'') ''Bearer ''
        \<and> jwt (TrimPrefix (GetHeader hdrs ''Authorization'') ''Bearer '')
               (Getenv env ''JWT_SECRET'') = Some token
        \<and> Valid token \<longrightarrow>
      (authMiddleware jwt env hdrs keys :: 't gate)
        = Next (keys(''user_id'' \<mapsto> UserID (Claims token), ''role'' \<mapsto> Role (Claims token))))
   \<and> (Getenv env ''DEV_MODE'' \<noteq> ''true''
        \<and> GetHeader hdrs ''X-API-Key'' \<noteq> ''test-api-key''
        \<and> (GetHeader hdrs ''Authorization'' = []
             \<or> \<not> HasPrefix (GetHeader hdrs ''Authorization'') ''Bearer ''
             \<or> jwt (TrimPrefix (GetHeader hdrs ''Authorization'') ''Bearer '')
                    (Getenv env ''JWT_SECRET'') = None
             \<or> (\<exists>t. jwt (TrimPrefix (GetHeader hdrs ''Authorization'') ''Bearer '')
                          (Getenv env ''JWT_SECRET'') = Some t \<and> \<not> Valid t)) \<longrightarrow>
      (authMiddleware jwt env hdrs keys :: 't gate)
        = Abort (401, ErrorResponse ''Authentication required''
                        ''Provide a valid API key or Bearer token''))"
  by (auto simp: authMiddleware_def validateJWT_def validateAPIKey_def Let_def HasPrefix_def
           split: prod.splits option.splits if_splits)

theorem authMiddleware_order_witness:
  "(authMiddleware sample_jwt [''JWT_SECRET'' \<mapsto> ''s3cret'']
      [''X-API-Key'' \<mapsto> ''wrong-key'', ''Authorization'' \<mapsto> ''Bearer tok-1''] Map.empty :: nat gate)
     = Next [''user_id'' \<mapsto> ''u1'', ''role'' \<mapsto> ''viewer'']
   \<and> (authMiddleware sample_jwt [''JWT_SECRET'' \<mapsto> ''s3cret''] Map.empty Map.empty :: nat gate)
     = Abort (401, ErrorResponse ''Authentication required''
                     ''Provide a valid API key or Bearer token'')
   \<and> (authMiddleware sample_jwt [''JWT_SECRET'' \<mapsto> ''s3cret'']
      [''X-API-Key'' \<mapsto> ''test-api-key'', ''Authorization'' \<mapsto> ''Bearer tok-1''] Map.empty :: nat gate)
     = Next [''role'' \<mapsto> ''agent-publisher'']
   \<and> (authMiddleware sample_jwt [''DEV_MODE'' \<mapsto> ''true''] Map.empty Map.empty :: nat gate)
     = Next [''role'' \<mapsto> ''admin'']
   \<and> sample_jwt ''forged'' ''s3cret'' = None
   \<and> (authMiddleware sample_jwt [''JWT_SECRET'' \<mapsto> ''s3cret'']
      [''Authorization'' \<mapsto> ''Bearer forged''] Map.empty :: nat gate)
     = Abort (401, ErrorResponse ''Authentication required''
                     ''Provide a valid API key or Bearer token'')
   \<and> sample_jwt ''tok-0'' ''s3cret''
       = Some \<lparr>Claims = \<lparr>UserID = ''u0'', Role = ''admin''\<rparr>, Valid = False\<rparr>
   \<and> (authMiddleware sample_jwt [''JWT_SECRET'' \<mapsto> ''s3cret'']
      [''Authorization'' \<mapsto> ''Bearer tok-0''] Map.empty :: nat gate)
     = Abort (401, ErrorResponse ''Authentication required''
                     ''Provide a valid API key or Bearer token'')
   \<and> (authMiddleware sample_jwt [''JWT_SECRET'' \<mapsto> ''s3cret'']
      [''Authorization'' \<mapsto> ''tok-1''] Map.empty :: nat gate)
     = Abort (401, ErrorResponse ''Authentication required''
                     ''Provide a valid API key or Bearer token'')"
proof -
  let ?env = "[''JWT_SECRET'' \<mapsto> ''s3cret'']"
  let ?tok1 = "\<lparr>Claims = \<lparr>UserID = ''u1'', Role = ''viewer''\<rparr>, Valid = True\<rparr>"
  have env: "Getenv ?env ''DEV_MODE'' \<noteq> ''true''" "Getenv ?env ''JWT_SECRET'' = ''s3cret''"
            "Getenv [''DEV_MODE'' \<mapsto> ''true''] ''DEV_MODE'' = ''true''"
    by (simp_all add: Getenv_def)
  have lib: "sample_jwt ''tok-1'' ''s3cret'' = Some ?tok1"
            "sample_jwt ''forged'' ''s3cret'' = None"
            "sample_jwt ''tok-0'' ''s3cret''
               = Some \<lparr>Claims = \<lparr>UserID = ''u0'', Role = ''admin''\<rparr>, Valid = False\<rparr>"
    by (simp_all add: sample_jwt_def)
  have token: "(authMiddleware sample_jwt ?env
      [''X-API-Key'' \<mapsto> ''wrong-key'', ''Authorization'' \<mapsto> ''Bearer tok-1''] Map.empty :: nat gate)
     = Next [''user_id'' \<mapsto> ''u1'', ''role'' \<mapsto> ''viewer'']"
    using authMiddleware_order
            [of ?env sample_jwt
                "[''X-API-Key'' \<mapsto> ''wrong-key'', ''Authorization'' \<mapsto> ''Bearer tok-1'']"
                Map.empty "''x''" ?tok1, where ?'t = nat] env lib
    by (simp add: GetHeader_def HasPrefix_def TrimPrefix_def)
  have none: "(authMiddleware sample_jwt ?env Map.empty Map.empty :: nat gate)
     = Abort (401, ErrorResponse ''Authentication required''
                     ''Provide a valid API key or Bearer token'')"
    using authMiddleware_order
            [of ?env sample_jwt Map.empty Map.empty "''x''" ?tok1, where ?'t = nat] env
    by (simp add: GetHeader_def)
  have key: "(authMiddleware sample_jwt ?env
      [''X-API-Key'' \<mapsto> ''test-api-key'', ''Authorization'' \<mapsto> ''Bearer tok-1''] Map.empty :: nat gate)
     = Next [''role'' \<mapsto> ''agent-publisher'']"
    using authMiddleware_order
            [of ?env sample_jwt
                "[''X-API-Key'' \<mapsto> ''test-api-key'', ''Authorization'' \<mapsto> ''Bearer tok-1'']"
                Map.empty "''x''" ?tok1, where ?'t = nat] env
    by (simp add: GetHeader_def)
  have dev: "(authMiddleware sample_jwt [''DEV_MODE'' \<mapsto> ''true''] Map.empty Map.empty :: nat gate)
     = Next [''role'' \<mapsto> ''admin'']"
    using authMiddleware_order
            [of "[''DEV_MODE'' \<mapsto> ''true'']" sample_jwt Map.empty Map.empty "''x''" ?tok1,
             where ?'t = nat] env
    by simp
  have forged: "(authMiddleware sample_jwt ?env
      [''Authorization'' \<mapsto> ''Bearer forged''] Map.empty :: nat gate)
     = Abort (401, ErrorResponse ''Authentication required''
                     ''Provide a valid API key or Bearer token'')"
    using authMiddleware_order
            [of ?env sample_jwt "[''Authorization'' \<mapsto> ''Bearer forged'']"
                Map.empty "''x''" ?tok1, where ?'t = nat] env lib
    by (simp add: GetHeader_def HasPrefix_def TrimPrefix_def)
  have invalid: "(authMiddleware sample_jwt ?env
      [''Authorization'' \<mapsto> ''Bearer tok-0''] Map.empty :: nat gate)
     = Abort (401, ErrorResponse ''Authentication required''
                     ''Provide a valid API key or Bearer token'')"
    using authMiddleware_order
            [of ?env sample_jwt "[''Authorization'' \<mapsto> ''Bearer tok-0'']"
                Map.empty "''x''" ?tok1, where ?'t = nat] env lib
    by (simp add: GetHeader_def HasPrefix_def TrimPrefix_def)
  have bare: "(authMiddleware sample_jwt ?env
      [''Authorization'' \<mapsto> ''tok-1''] Map.empty :: nat gate)
     = Abort (401, ErrorResponse ''Authentication required''
                     ''Provide a valid API key or Bearer token'')"
    using authMiddleware_order
            [of ?env sample_jwt "[''Authorization'' \<mapsto> ''tok-1'']"
                Map.empty "''x''" ?tok1, where ?'t = nat] env
    by (simp add: GetHeader_def HasPrefix_def)
  from token none key dev forged invalid bare lib show ?thesis
    by simp
qed

subsection \<open>The read operations\<close>

lemma findAgent_Some:
  "findAgent tm name ss = Some a \<Longrightarrow>
   \<exists>s\<in>set ss. Service s = name \<and> ''ai-agent'' \<in> set (svc_Tags s) \<and> a = buildAgent tm s"
  by (induction ss) (auto simp: isAIAgent_iff split: if_splits)

lemma findAgent_None:
  "(findAgent tm name ss = None) =
   (\<forall>s\<in>set ss. Service s = name \<longrightarrow> ''ai-agent'' \<notin> set (svc_Tags s))"
  by (induction ss) (auto simp: isAIAgent_iff)

lemma listAgents_ok:
  "ServicesErr st = None \<Longrightarrow>
   listAgents tm st =
     ((200, AgentsArray (map (buildAgent tm)
                           (filter (\<lambda>s. ''ai-agent'' \<in> set (svc_Tags s)) (services st)))),
      st\<lparr>calls := calls st @ [CallServices]\<rparr>)"
  by (simp add: listAgents_def Services_def collectAgents_eq isAIAgent_iff)

lemma listAgents_failed:
  "ServicesErr st = Some e \<Longrightarrow>
   listAgents tm st =
     ((500, ErrorResponse ''Failed to list agents'' e), st\<lparr>calls := calls st @ [CallServices]\<rparr>)"
  by (simp add: listAgents_def Services_def)

lemma getAgent_ok:
  "ServicesErr st = None \<Longrightarrow>
   fst (getAgent tm name st) =
     (case findAgent tm name (services st) of
        Some agent \<Rightarrow> (200, AgentResponse agent)
      | None \<Rightarrow> (404, ErrorResponse ''Agent not found'' []))"
  by (auto simp: getAgent_def agentExists_def Services_def nameRegistered_iff findAgent_None
           split: option.splits dest: findAgent_Some)

lemma getAgent_failed:
  "ServicesErr st = Some e \<Longrightarrow>
   fst (getAgent tm name st) =
     (500, ErrorResponse ''Failed to check agent existence''
             (''failed to check if agent exists: '' @ e))"
  by (simp add: getAgent_def agentExists_def Services_def)

text \<open>
  C2. Whatever the registry holds, every agent in the array that list returns is built
  from a registered service that carries the tag "ai-agent" (and when the registry
  answers, the array is exactly the tagged services, in order), and an agent that get
  returns is built from a service with the requested name that carries the tag. When the
  registry answers and no service with the name carries the tag, get returns 404
  "Agent not found", also when a service with that name exists.
\<close>

theorem reads_surface_only_tagged:
  "(fst (listAgents tm st) = (code, AgentsArray agents) \<longrightarrow>
      (\<forall>a\<in>set agents. \<exists>s\<in>set (services st). ''ai-agent'' \<in> set (svc_Tags s) \<and> a = buildAgent tm s))
   \<and> (ServicesErr st = None \<longrightarrow>
        fst (listAgents tm st) =
          (200, AgentsArray (map (buildAgent tm)
                  (filter (\<lambda>s. ''ai-agent'' \<in> set (svc_Tags s)) (services st)))))
   \<and> (fst (getAgent tm name st) = (code', AgentResponse a) \<longrightarrow>
        (\<exists>s\<in>set (services st). Service s = name \<and> ''ai-agent'' \<in> set (svc_Tags s)
                                  \<and> a = buildAgent tm s))
   \<and> (ServicesErr st = None
        \<and> (\<forall>s\<in>set (services st). Service s = name \<longrightarrow> ''ai-agent'' \<notin> set (svc_Tags s)) \<longrightarrow>
        fst (getAgent tm name st) = (404, ErrorResponse ''Agent not found'' []))"
proof (cases "ServicesErr st")
  case None
  have get: "fst (getAgent tm name st) =
     (case findAgent tm name (services st) of
        Some agent \<Rightarrow> (200, AgentResponse agent)
      | None \<Rightarrow> (404, ErrorResponse ''Agent not found'' []))"
    using None by (rule getAgent_ok)
  have "fst (getAgent tm name st) = (code', AgentResponse a) \<longrightarrow>
        (\<exists>s\<in>set (services st). Service s = name \<and> ''ai-agent'' \<in> set (svc_Tags s)
                                  \<and> a = buildAgent tm s)"
    unfolding get by (auto split: option.splits dest: findAgent_Some)
  moreover have "(\<forall>s\<in>set (services st). Service s = name \<longrightarrow> ''ai-agent'' \<notin> set (svc_Tags s)) \<longrightarrow>
        fst (getAgent tm name st) = (404, ErrorResponse ''Agent not found'' [])"
    unfolding get using findAgent_None [of tm name "services st"] by auto
  ultimately show ?thesis
    using None by (auto simp: listAgents_ok)
next
  case (Some e)
  then show ?thesis
    by (simp add: listAgents_failed getAgent_failed)
qed

theorem reads_surface_only_tagged_witness:
  "ServicesErr consul1 = None
   \<and> services consul1 = [redis, weather]
   \<and> Service redis = ''redis'' \<and> ''ai-agent'' \<notin> set (svc_Tags redis)
   \<and> Service weather \<noteq> ''redis''
   \<and> fst (getAgent sample_time ''redis'' consul1) = (404, ErrorResponse ''Agent not found'' [])
   \<and> fst (listAgents sample_time consul1) = (200, AgentsArray [buildAgent sample_time weather])"
  using reads_surface_only_tagged [of sample_time consul1 200 "[buildAgent sample_time weather]"
                                      "''redis''" 200 "buildAgent sample_time weather"]
  by (simp add: consul1_def consul0_def redis_def weather_def)

subsection \<open>Registering a name twice\<close>

text \<open>
  C3. When the registry answers and already holds a service with the name of the agent, a
  register request that passes validation is answered with 409 "Agent already exists".
  The only call made is the listing of the existence check: no registration is
  attempted, and the services of the registry are as before.
\<close>

theorem registerAgent_conflict:
  "Name agent \<noteq> [] \<Longrightarrow> Description agent \<noteq> [] \<Longrightarrow> BaseURL agent \<noteq> [] \<Longrightarrow> HowToUse agent \<noteq> [] \<Longrightarrow>
   ServicesErr st = None \<Longrightarrow> \<exists>s\<in>set (services st). Service s = Name agent \<Longrightarrow>
   fst (registerAgent tm (Inr agent) st) =
     (409, ErrorResponse ''Agent already exists''
             (''An agent with the name '' @ [CHR 0x27] @ Name agent @ [CHR 0x27]
                @ '' is already registered''))
   \<and> services (snd (registerAgent tm (Inr agent) st)) = services st
   \<and> calls (snd (registerAgent tm (Inr agent) st)) = calls st @ [CallServices]"
  by (simp add: registerAgent_def agentExists_def Services_def nameRegistered_iff)

lemma registerAgent_created:
  "Name agent \<noteq> [] \<Longrightarrow> Description agent \<noteq> [] \<Longrightarrow> BaseURL agent \<noteq> [] \<Longrightarrow> HowToUse agent \<noteq> [] \<Longrightarrow>
   ServicesErr st = None \<Longrightarrow> RegisterErr st = None \<Longrightarrow>
   \<forall>s\<in>set (services st). Service s \<noteq> Name agent \<Longrightarrow>
   registerAgent tm (Inr agent) st =
     ((201, AgentRegistrationResponse agent ''Agent registered successfully''),
      st\<lparr>services := filter (\<lambda>s. svc_ID s \<noteq> Name agent) (services st)
                        @ [service_of (registration_of tm agent)],
         calls := calls st @ [CallServices, CallServiceRegister (registration_of tm agent)]\<rparr>)"
  by (simp add: registerAgent_def agentExists_def Services_def nameRegistered_iff
                ServiceRegister_def registration_of_def)

theorem registerAgent_conflict_witness:
  "Name (geography\<lparr>Release := ''2.0.0''\<rparr>) = ''Geography''
   \<and> Description geography \<noteq> [] \<and> BaseURL geography \<noteq> [] \<and> HowToUse geography \<noteq> []
   \<and> ServicesErr (snd (registerAgent sample_time (Inr geography) consul0)) = None
   \<and> fst (fst (registerAgent sample_time (Inr geography) consul0)) = 201
   \<and> fst (fst (registerAgent sample_time (Inr (geography\<lparr>Release := ''2.0.0''\<rparr>))
                  (snd (registerAgent sample_time (Inr geography) consul0)))) = 409
   \<and> services (snd (registerAgent sample_time (Inr (geography\<lparr>Release := ''2.0.0''\<rparr>))
                  (snd (registerAgent sample_time (Inr geography) consul0))))
       = services (snd (registerAgent sample_time (Inr geography) consul0))"
proof -
  let ?st1 = "snd (registerAgent sample_time (Inr geography) consul0)"
  have first: "registerAgent sample_time (Inr geography) consul0 =
     ((201, AgentRegistrationResponse geography ''Agent registered successfully''),
      consul0\<lparr>services := filter (\<lambda>s. svc_ID s \<noteq> Name geography) (services consul0)
                        @ [service_of (registration_of sample_time geography)],
         calls := calls consul0 @ [CallServices, CallServiceRegister (registration_of sample_time geography)]\<rparr>)"
    by (rule registerAgent_created) (simp_all add: geography_def consul0_def redis_def)
  have ex: "\<exists>s\<in>set (services ?st1). Service s = Name (geography\<lparr>Release := ''2.0.0''\<rparr>)"
    unfolding first by (simp add: service_of_def registration_of_def)
  have ok: "ServicesErr ?st1 = None"
    unfolding first by (simp add: consul0_def)
  show ?thesis
    using registerAgent_conflict [of "geography\<lparr>Release := ''2.0.0''\<rparr>" ?st1 sample_time, OF _ _ _ _ ok ex] ok
    by (simp add: first) (simp add: geography_def)
qed

subsection \<open>Reading malformed metadata\<close>

lemma getAgent_tagged_found:
  "ServicesErr st = None \<Longrightarrow> s \<in> set (services st) \<Longrightarrow> ''ai-agent'' \<in> set (svc_Tags s) \<Longrightarrow>
   \<exists>a. fst (getAgent tm (Service s) st) = (200, AgentResponse a)"
  using findAgent_None [of tm "Service s" "services st"]
  by (cases "findAgent tm (Service s) (services st)") (auto simp: getAgent_ok)

text \<open>
  C9. Building an Agent from a service has no error outcome. When the metadata has no key
  "expiration", or has a value there that \<open>time.Parse\<close> rejects, the expiration of the
  Agent is the zero time. So, when the registry answers, list returns 200 whatever the
  metadata of the services is, and get returns 200 for the name of every service that
  carries the tag.
\<close>

theorem decode_expiration_lenient:
  "((svc_Meta s ''expiration'' = None
      \<or> (\<exists>v. svc_Meta s ''expiration'' = Some v \<and> Parse tm v = None)) \<longrightarrow>
     Expiration (buildAgent tm s) = zeroTime tm)
   \<and> (ServicesErr st = None \<longrightarrow>
        fst (listAgents tm st) =
          (200, AgentsArray (map (buildAgent tm)
                  (filter (\<lambda>s. ''ai-agent'' \<in> set (svc_Tags s)) (services st)))))
   \<and> (ServicesErr st = None \<and> s \<in> set (services st) \<and> ''ai-agent'' \<in> set (svc_Tags s) \<longrightarrow>
        (\<exists>a. fst (getAgent tm (Service s) st) = (200, AgentResponse a)))"
  by (auto simp: buildAgent_def expiration_of_service_def listAgents_ok
           intro: getAgent_tagged_found)

theorem decode_expiration_lenient_witness:
  "svc_Meta weather ''expiration'' = Some ''next tuesday''
   \<and> Parse sample_time ''next tuesday'' = None
   \<and> Expiration (buildAgent sample_time weather) = 0
   \<and> fst (listAgents sample_time consul1) = (200, AgentsArray [buildAgent sample_time weather])
   \<and> fst (getAgent sample_time ''weather'' consul1) = (200, AgentResponse (buildAgent sample_time weather))"
  using decode_expiration_lenient [of weather sample_time consul1]
  by (simp add: weather_def sample_time_def consul1_def consul0_def redis_def getAgent_ok)

subsection \<open>Tags\<close>




lemma addServiceTags_all_found:
  "set ts \<subseteq> insert ''ai-agent'' (set acc) \<Longrightarrow> addServiceTags acc ts = acc"
  by (induction ts) (auto simp: found_iff)

lemma Join_Nil_iff:
  "\<forall>x\<in>set xs. CHR '','' \<notin> set x \<Longrightarrow> (Join xs = []) = (xs = [] \<or> xs = [[]])"
  by (induction xs rule: Join.induct) auto

lemma metadata_of_fixed:
  "metadata_of tm agent ''Description'' = Some (Description agent)"
  "metadata_of tm agent ''howtouse'' = Some (HowToUse agent)"
  "metadata_of tm agent ''baseurl'' = Some (BaseURL agent)"
  by (simp_all add: metadata_of_def Let_def)

lemma metadata_of_optional:
  "metadata_of tm agent ''release'' = (if Release agent \<noteq> [] then Some (Release agent) else None)"
  "metadata_of tm agent ''openapi'' = (if OpenAPI agent \<noteq> [] then Some (OpenAPI agent) else None)"
  "metadata_of tm agent ''expiration'' =
     (if \<not> IsZero tm (Expiration agent) then Some (Format tm (Expiration agent)) else None)"
  "metadata_of tm agent ''tags'' =
     (if Tags agent \<noteq> [] then Some (encodeArrayToString (Tags agent)) else None)"
  by (simp_all add: metadata_of_def Let_def)

lemma tags_roundtrip:
  assumes "\<forall>t\<in>set (Tags agent). CHR '','' \<notin> set t"
  shows "tags_of_service (service_of (registration_of tm agent)) = Tags agent"
proof (cases "Tags agent = []")
  case True
  then show ?thesis
    by (simp add: tags_of_service_def metaTags_def service_of_def registration_of_def
                  metadata_of_optional)
next
  case False
  show ?thesis
  proof (cases "Join (Tags agent) = []")
    case True
    with assms False have "Tags agent = [[]]"
      by (simp add: Join_Nil_iff)
    then show ?thesis
      by (simp add: tags_of_service_def metaTags_def service_of_def registration_of_def
                    metadata_of_optional encodeArrayToString_def)
  next
    case nonempty: False
    have "metaTags (service_of (registration_of tm agent)) = Tags agent"
      using False nonempty assms
      by (simp add: metaTags_def service_of_def registration_of_def metadata_of_optional
                    encodeArrayToString_def decodeStringToArray_def Split_Join)
    then show ?thesis
      by (simp add: tags_of_service_def service_of_def registration_of_def
                    addServiceTags_all_found subset_insertI2)
  qed
qed
lemma buildAgent_of_registration:
  "buildAgent tm (service_of (registration_of tm agent)) =
     \<lparr>Name = Name agent,
      Description = Description agent,
      Release = Release agent,
      BaseURL = BaseURL agent,
      OpenAPI = OpenAPI agent,
      HowToUse = HowToUse agent,
      Expiration =
        (if IsZero tm (Expiration agent) \<or> Format tm (Expiration agent) = [] then zeroTime tm
         else (case Parse tm (Format tm (Expiration agent)) of
                 Some t \<Rightarrow> t | None \<Rightarrow> zeroTime tm)),
      TTL = 0,
      Tags = tags_of_service (service_of (registration_of tm agent))\<rparr>"
  by (simp add: buildAgent_def meta_get_def optional_meta_def expiration_of_service_def
                service_of_def registration_of_def metadata_of_fixed metadata_of_optional)





subsection \<open>Encoding an Agent and decoding it again\<close>

text \<open>
  C1, as the code has it. For every Agent (valid or not), building an Agent from the
  service that its registration creates gives back the name, description, baseURL and
  howToUse, each stored under its own metadata key, and the release and openAPI. Absent
  tags come back as the empty list and an absent (zero) expiration as the zero time. The
  ttl is not stored in the metadata and comes back as 0. The tags come back unchanged
  when no tag contains a comma, and the expiration when its formatted text is not empty
  and parses back to it.
\<close>

theorem codec_roundtrip:
  "Name (buildAgent tm (service_of (registration_of tm agent))) = Name agent
   \<and> Description (buildAgent tm (service_of (registration_of tm agent))) = Description agent
   \<and> BaseURL (buildAgent tm (service_of (registration_of tm agent))) = BaseURL agent
   \<and> HowToUse (buildAgent tm (service_of (registration_of tm agent))) = HowToUse agent
   \<and> Release (buildAgent tm (service_of (registration_of tm agent))) = Release agent
   \<and> OpenAPI (buildAgent tm (service_of (registration_of tm agent))) = OpenAPI agent
   \<and> TTL (buildAgent tm (service_of (registration_of tm agent))) = 0
   \<and> svc_Meta (service_of (registration_of tm agent)) ''Description'' = Some (Description agent)
   \<and> svc_Meta (service_of (registration_of tm agent)) ''baseurl'' = Some (BaseURL agent)
   \<and> svc_Meta (service_of (registration_of tm agent)) ''howtouse'' = Some (HowToUse agent)
   \<and> Service (service_of (registration_of tm agent)) = Name agent
   \<and> (Tags agent = [] \<longrightarrow> Tags (buildAgent tm (service_of (registration_of tm agent))) = [])
   \<and> ((\<forall>t\<in>set (Tags agent). CHR '','' \<notin> set t) \<longrightarrow>
        Tags (buildAgent tm (service_of (registration_of tm agent))) = Tags agent)
   \<and> (IsZero tm (Expiration agent) \<longrightarrow>
        Expiration (buildAgent tm (service_of (registration_of tm agent))) = zeroTime tm)
   \<and> (\<not> IsZero tm (Expiration agent) \<and> Format tm (Expiration agent) \<noteq> []
        \<and> Parse tm (Format tm (Expiration agent)) = Some (Expiration agent) \<longrightarrow>
        Expiration (buildAgent tm (service_of (registration_of tm agent))) = Expiration agent)"
proof -
  have "svc_Meta (service_of (registration_of tm agent)) = metadata_of tm agent"
    and "Service (service_of (registration_of tm agent)) = Name agent"
    by (simp_all add: service_of_def registration_of_def)
  moreover have "Tags agent = [] \<longrightarrow> tags_of_service (service_of (registration_of tm agent)) = []"
    by (simp add: tags_roundtrip)
  moreover have "(\<forall>t\<in>set (Tags agent). CHR '','' \<notin> set t) \<longrightarrow>
        tags_of_service (service_of (registration_of tm agent)) = Tags agent"
    by (simp add: tags_roundtrip)
  ultimately show ?thesis
    by (simp add: buildAgent_of_registration metadata_of_fixed)
qed

theorem codec_roundtrip_witness:
  "buildAgent sample_time (service_of (registration_of sample_time geography))
     = geography\<lparr>TTL := 0\<rparr>
   \<and> Tags (buildAgent sample_time (service_of (registration_of sample_time
              (geography\<lparr>Tags := [], Expiration := 0\<rparr>)))) = []
   \<and> Expiration (buildAgent sample_time (service_of (registration_of sample_time
              (geography\<lparr>Tags := [], Expiration := 0\<rparr>)))) = 0"
proof -
  let ?d = "buildAgent sample_time (service_of (registration_of sample_time geography))"
  have comma: "\<forall>t\<in>set (Tags geography). CHR '','' \<notin> set t"
    by (simp add: geography_def)
  have time: "\<not> IsZero sample_time (Expiration geography)
              \<and> Format sample_time (Expiration geography) \<noteq> []
              \<and> Parse sample_time (Format sample_time (Expiration geography))
                  = Some (Expiration geography)"
    by (simp add: geography_def sample_time_def list_all_iff)
  have "Name ?d = Name geography \<and> Description ?d = Description geography
        \<and> BaseURL ?d = BaseURL geography \<and> HowToUse ?d = HowToUse geography
        \<and> Release ?d = Release geography \<and> OpenAPI ?d = OpenAPI geography \<and> TTL ?d = 0
        \<and> Tags ?d = Tags geography \<and> Expiration ?d = Expiration geography"
    using codec_roundtrip [of sample_time geography] comma time by simp
  then have "?d = geography\<lparr>TTL := 0\<rparr>"
    by (cases ?d) (simp add: geography_def)
  moreover have "Tags (buildAgent sample_time (service_of (registration_of sample_time
              (geography\<lparr>Tags := [], Expiration := 0\<rparr>)))) = []
      \<and> Expiration (buildAgent sample_time (service_of (registration_of sample_time
              (geography\<lparr>Tags := [], Expiration := 0\<rparr>)))) = 0"
    using codec_roundtrip [of sample_time "geography\<lparr>Tags := [], Expiration := 0\<rparr>"]
    by (simp add: sample_time_def)
  ultimately show ?thesis by simp
qed

text \<open>
  The mapping is not reversible as the specification states it: a tag that contains a
  comma is split when it is read back, and then the native tag is added after its
  pieces; and the ttl of the agent is not read back.
\<close>

theorem codec_tags_with_comma_not_reversible:
  "Name (geography\<lparr>Tags := [''maps,atlas'']\<rparr>) \<noteq> []
   \<and> Description (geography\<lparr>Tags := [''maps,atlas'']\<rparr>) \<noteq> []
   \<and> BaseURL (geography\<lparr>Tags := [''maps,atlas'']\<rparr>) \<noteq> []
   \<and> HowToUse (geography\<lparr>Tags := [''maps,atlas'']\<rparr>) \<noteq> []
   \<and> Tags (buildAgent sample_time (service_of (registration_of sample_time
              (geography\<lparr>Tags := [''maps,atlas'']\<rparr>))))
       = [''maps'', ''atlas'', ''maps,atlas'']
   \<and> Tags (buildAgent sample_time (service_of (registration_of sample_time
              (geography\<lparr>Tags := [''maps,atlas'']\<rparr>))))
       \<noteq> Tags (geography\<lparr>Tags := [''maps,atlas'']\<rparr>)
   \<and> TTL (buildAgent sample_time (service_of (registration_of sample_time
              (geography\<lparr>Tags := [''maps,atlas'']\<rparr>))))
       \<noteq> TTL (geography\<lparr>Tags := [''maps,atlas'']\<rparr>)"
proof -
  let ?g = "geography\<lparr>Tags := [''maps,atlas'']\<rparr>"
  have pieces: "tags_of_service (service_of (registration_of sample_time ?g))
                  = [''maps'', ''atlas'', ''maps,atlas'']"
    by (simp add: tags_of_service_def metaTags_def service_of_def registration_of_def
                  metadata_of_optional encodeArrayToString_def decodeStringToArray_def)
  have "Tags (buildAgent sample_time (service_of (registration_of sample_time ?g)))
          = [''maps'', ''atlas'', ''maps,atlas'']"
    and "TTL (buildAgent sample_time (service_of (registration_of sample_time ?g))) = 0"
    unfolding buildAgent_of_registration pieces by simp_all
  then show ?thesis
    by (simp add: geography_def)
qed

end
